theory Spec2Isabelle
  imports Main
begin

section \<open>Syntax trees\<close>

text \<open>
  The codemod \<^verbatim>\<open>src/codemod/undecorate.ts\<close> works on the syntax tree that the external
  toolkit parses from the source text. A node made by the parser carries its source
  position; a node made by one of the toolkit's builders (\<^verbatim>\<open>j.decorator\<close>,
  \<^verbatim>\<open>j.classProperty\<close>, ...) has none. A position is the pair (start line, start column).
\<close>

type_synonym loc = "(nat \<times> nat) option"

datatype expr =
    Identifier loc string
  | MemberExpression loc expr expr bool
  | CallExpression loc expr "expr list"
  | ArrayExpression loc "expr list"
  | ObjectExpression loc "objmember list"
  | AssignmentExpression loc expr expr
  | ArrowFunctionExpression loc "string list" "statement list" bool "string option"
  | FunctionExpression loc "string list" "statement list" bool bool "string option"
  | ThisExpression loc
  | Super loc
  | OtherExpression loc string "expr list" "statement list"
  | Removed
and objmember =
    ObjectProperty loc expr expr bool bool bool
  | OtherObjectMember loc "expr list"
and statement =
    ExpressionStatement loc expr
  | OtherStatement loc string "expr list" "statement list"

text \<open>
  \<^item> \<open>MemberExpression l object property computed\<close>;
  \<^item> \<open>CallExpression l callee arguments\<close>;
  \<^item> \<open>AssignmentExpression l left right\<close> is an assignment with the operator \<^verbatim>\<open>=\<close>;
  \<^item> \<open>ArrowFunctionExpression l params body async returnType\<close>;
  \<^item> \<open>FunctionExpression l params body generator async returnType\<close>;
  \<^item> \<open>OtherExpression l type es sts\<close> is an expression of any other node type (a literal, a
    conditional, a class expression, a variable declarator, ...), with the expressions
    and the statements that are its children, in the order in which the toolkit visits
    them;
  \<^item> \<open>Removed\<close> stands where \<^verbatim>\<open>prune\<close> has taken a child out of its parent, be it out of
    an array or out of a field;
  \<^item> \<open>ObjectProperty l key value method shorthand computed\<close>; \<open>OtherObjectMember l es\<close> is a
    spread element or an object method, with the expressions that are its children;
  \<^item> \<open>OtherStatement l type es sts\<close> is a statement of any other node type (a variable
    declaration, an \<^verbatim>\<open>export default\<close> of an expression, a block, a function
    declaration, ...), with its children in the same way; the type is the node type, as
    in \<open>''VariableDeclaration''\<close>.
\<close>

datatype decorator = Decorator loc expr

datatype member_type = ClassProperty | ClassMethod | MethodDefinition | OtherMember

datatype method_kind = Constructor | Get | Set | Method

text \<open>
  A class member. The fields are those of the toolkit's \<^verbatim>\<open>ClassProperty\<close> and
  \<^verbatim>\<open>ClassMethod\<close> nodes that the codemod reads or writes; \<open>val\<close> is the node's
  \<^verbatim>\<open>value\<close> (\<open>None\<close> for \<^verbatim>\<open>null\<close> or a missing field), \<open>static\<close> its \<^verbatim>\<open>static\<close> flag.
  A method has no \<^verbatim>\<open>value\<close> until the codemod assigns one, and \<open>kind\<close>, \<open>params\<close>,
  \<open>body\<close>, \<open>generator\<close>, \<open>async\<close> and \<open>returnType\<close> mean nothing on a property.
\<close>

record member =
  mtype :: member_type
  key :: expr
  val :: "expr option"
  kind :: method_kind
  params :: "string list"
  body :: "statement list"
  generator :: bool
  async :: bool
  returnType :: "string option"
  decorators :: "decorator list"
  static :: bool
  comments :: "string list"
  mloc :: loc

text \<open>
  A class declaration. \<open>cparent\<close> is the parent of the declaration's path: the statement
  list that holds the declaration, named by the identity of the node whose body the list
  is (\<open>0\<close> for the program), or an \<^verbatim>\<open>export\<close> declaration.
\<close>

datatype holder = StatementList nat | ExportDeclaration

record clazz =
  cid :: "expr option"
  superClass :: "expr option"
  cbody :: "member list"
  cloc :: loc
  cparent :: holder

datatype specifier =
    ImportSpecifier loc string
  | ImportDefaultSpecifier loc string
  | ImportNamespaceSpecifier loc string

text \<open>
  The file, as the list of the nodes that the codemod reaches through \<^verbatim>\<open>source.find\<close>, in
  the order of the traversal: the import declarations, the class declarations, and the
  statements, each of the last with the identity of the node whose body holds it
  (\<open>0\<close> for the program). A statement that is nested in a function or a block is an entry
  of its own, as is a class declaration wherever it stands.
\<close>

datatype node =
    ImportDeclaration loc "specifier list" string
  | ClassDeclaration clazz
  | Statement nat statement

section \<open>Diagnostics and errors\<close>

text \<open>
  \<open>Diagnostic msg line column\<close> is a line written by \<^verbatim>\<open>warn\<close>; \<open>Message msg\<close> is a line
  written to the console directly.
\<close>

datatype diagnostic = Diagnostic string nat nat | Message string

text \<open>
  What a run can throw: a \<^verbatim>\<open>TypeError\<close> of the language, or the error of a failed
  assertion of the toolkit.
\<close>

datatype error = TypeError | ToolkitError

text \<open>The argument \<^verbatim>\<open>fileInfo\<close>: the path of the file and its text.\<close>

record fileInfo =
  path :: string
  source :: string

text \<open>\<^verbatim>\<open>source.split("\\n")\<close>: the text between the line feeds.\<close>

fun splitLines :: "string \<Rightarrow> string list" where
  "splitLines [] = [[]]"
| "splitLines (c # cs) =
     (if c = CHR 0x0A then [] # splitLines cs
      else (case splitLines cs of l # ls \<Rightarrow> (c # l) # ls | [] \<Rightarrow> [[c]]))"

text \<open>
  The variables of \<^verbatim>\<open>tranform\<close> that its inner functions read and write, with the two
  constants \<^verbatim>\<open>fileInfo.path\<close> and \<^verbatim>\<open>lines\<close>.
\<close>

record env =
  filePath :: string
  lines :: "string list"
  changed :: bool
  needsInitializeImport :: bool
  decoratorsUsed :: "string set"
  usesDecorate :: bool
  console :: "diagnostic list"

text \<open>
  \<^verbatim>\<open>warn(msg, node)\<close> reads \<^verbatim>\<open>node.loc!.start.line\<close>: on a node without a position this
  is a property access on \<^verbatim>\<open>null\<close>, which throws a \<^verbatim>\<open>TypeError\<close>. It then takes
  \<^verbatim>\<open>lines[line - 1]\<close> and calls \<^verbatim>\<open>replace\<close> on it, which throws a \<^verbatim>\<open>TypeError\<close> when the
  array has no such element: the parser ends a line at a carriage return and at the
  separators U+2028 and U+2029 too, \<^verbatim>\<open>split\<close> at line feeds only. \<open>Diagnostic msg line col\<close>
  stands for the text written, which is made of the message, the path, the position and
  the line.
\<close>

definition warn :: "string \<Rightarrow> loc \<Rightarrow> 'a env_scheme \<Rightarrow> error + 'a env_scheme" where
  "warn msg l e =
     (case l of
        None \<Rightarrow> Inl TypeError
      | Some (line, col) \<Rightarrow>
          if 1 \<le> line \<and> line \<le> length (lines e)
          then Inr (e\<lparr>console := console e @ [Diagnostic msg line col]\<rparr>)
          else Inl TypeError)"

fun loc_of :: "expr \<Rightarrow> loc" where
  "loc_of (Identifier l _) = l"
| "loc_of (MemberExpression l _ _ _) = l"
| "loc_of (CallExpression l _ _) = l"
| "loc_of (ArrayExpression l _) = l"
| "loc_of (ObjectExpression l _) = l"
| "loc_of (AssignmentExpression l _ _) = l"
| "loc_of (ArrowFunctionExpression l _ _ _ _) = l"
| "loc_of (FunctionExpression l _ _ _ _ _) = l"
| "loc_of (ThisExpression l) = l"
| "loc_of (Super l) = l"
| "loc_of (OtherExpression l _ _ _) = l"
| "loc_of Removed = None"

fun objmember_loc :: "objmember \<Rightarrow> loc" where
  "objmember_loc (ObjectProperty l _ _ _ _ _) = l"
| "objmember_loc (OtherObjectMember l _) = l"


section \<open>The inner functions of \<^verbatim>\<open>tranform\<close>\<close>

text \<open>
  While one class is rewritten, the functions also write the \<^verbatim>\<open>effects\<close> object of that
  class (\<open>needsConstructor\<close>, and \<open>membersToRemove\<close>, which holds member nodes: a node is
  named here by its index in the class body) and insert statements after the class
  declaration (\<open>insertedAfter\<close>, the statements that follow the class, nearest first).
\<close>

record cstate = env +
  needsConstructor :: bool
  membersToRemove :: "nat list"
  insertedAfter :: "node list"

definition validDecorators :: "string list" where
  "validDecorators = [''action'', ''observable'', ''computed'']"

text \<open>A name between single quotes, as the messages give it.\<close>

definition quoted :: "string \<Rightarrow> string" where
  "quoted n = CHR 0x27 # n @ [CHR 0x27]"

definition thenE :: "error + 'a \<Rightarrow> ('a \<Rightarrow> error + 'b) \<Rightarrow> error + 'b" where
  "thenE r f = (case r of Inl x \<Rightarrow> Inl x | Inr v \<Rightarrow> f v)"

definition isIdentifier :: "expr \<Rightarrow> bool" where
  "isIdentifier x = (case x of Identifier _ _ \<Rightarrow> True | _ \<Rightarrow> False)"

definition isNamed :: "expr \<Rightarrow> string \<Rightarrow> bool" where
  "isNamed x n = (case x of Identifier _ a \<Rightarrow> a = n | _ \<Rightarrow> False)"

definition identName :: "expr \<Rightarrow> string" where
  "identName x = (case x of Identifier _ a \<Rightarrow> a | _ \<Rightarrow> [])"

definition isFunctionExpression :: "expr option \<Rightarrow> bool" where
  "isFunctionExpression x =
     (case x of Some (FunctionExpression _ _ _ _ _ _) \<Rightarrow> True | _ \<Rightarrow> False)"

definition isClassMember :: "member \<Rightarrow> bool" where
  "isClassMember m = (mtype m = ClassProperty \<or> mtype m = ClassMethod)"

text \<open>
  \<^verbatim>\<open>fnCall(name, args)\<close>: \<open>name\<close> holds one or two entries, the second a string or
  \<^verbatim>\<open>false\<close> (written \<open>[]\<close> here, the empty string being as falsy); the arguments that
  are \<^verbatim>\<open>null\<close>, \<^verbatim>\<open>undefined\<close> or \<^verbatim>\<open>false\<close> are \<open>None\<close> and are filtered out.
\<close>

definition fnCall :: "string list \<Rightarrow> expr option list \<Rightarrow> expr" where
  "fnCall name args =
     CallExpression None
       (if length (filter (\<lambda>n. n \<noteq> []) name) = 2
        then MemberExpression None (Identifier None (name ! 0)) (Identifier None (name ! 1)) False
        else Identifier None (name ! 0))
       (List.map_filter id args)"

text \<open>
  \<^verbatim>\<open>toArrowFn\<close> is called on a member's value, which it returns as it is, or on a
  \<^verbatim>\<open>ClassMethod\<close> node, which it wraps.
\<close>

datatype fnarg = OfValue "expr option" | OfMethod member

definition toArrowFn :: "fnarg \<Rightarrow> expr option" where
  "toArrowFn a =
     (case a of
        OfValue v \<Rightarrow> v
      | OfMethod m \<Rightarrow>
          Some (if generator m
                then FunctionExpression None (params m) (body m) True (async m) (returnType m)
                else ArrowFunctionExpression None (params m) (body m) (async m) (returnType m)))"

datatype ptype = PField | PMethod | PGetter

record propInfo =
  isCallExpression :: bool
  baseDecorator :: string
  subDecorator :: string
  ptype :: ptype
  pexpr :: fnarg
  callArg :: "expr option"
  setterExpr :: "(nat \<times> member) option"

text \<open>
  The chain of tests of \<^verbatim>\<open>parseProperty\<close> that finds the two names of a decorator;
  \<open>None\<close> where the chain ends in a warning that the expression is too complex, on either
  of the two branches that give it.
\<close>

definition namesOf :: "expr \<Rightarrow> (string \<times> string) option" where
  "namesOf decExpr =
     (case decExpr of
        CallExpression _ callee _ \<Rightarrow>
          (case callee of
             MemberExpression _ ob pr _ \<Rightarrow>
               if isIdentifier ob \<and> isIdentifier pr
               then Some (identName ob, identName pr) else None
           | Identifier _ a \<Rightarrow> Some (a, [])
           | _ \<Rightarrow> None)
      | MemberExpression _ ob pr _ \<Rightarrow>
          if isIdentifier ob \<and> isIdentifier pr
          then Some (identName ob, identName pr) else None
      | Identifier _ a \<Rightarrow> Some (a, [])
      | _ \<Rightarrow> None)"

definition decoratorNames :: "expr \<Rightarrow> 'a env_scheme \<Rightarrow> error + ((string \<times> string) \<times> 'a env_scheme)" where
  "decoratorNames decExpr e =
     (case namesOf decExpr of
        Some names \<Rightarrow> Inr (names, e)
      | None \<Rightarrow>
          thenE (warn ''Decorator expression too complex, please convert manually''
                   (loc_of decExpr) e)
            (\<lambda>e'. Inr (([], []), e')))"

definition callArguments :: "expr \<Rightarrow> expr list option" where
  "callArguments x = (case x of CallExpression _ _ args \<Rightarrow> Some args | _ \<Rightarrow> None)"

text \<open>
  The sibling \<^verbatim>\<open>set\<close> accessor with the same identifier key: the first one in the class
  body, with its index.
\<close>

definition findSetter :: "member list \<Rightarrow> member \<Rightarrow> (nat \<times> member) option" where
  "findSetter ms p =
     find (\<lambda>(i, m). mtype m = ClassMethod \<and> kind m = Set \<and> isIdentifier (key m) \<and>
                     isIdentifier (key p) \<and> identName (key m) = identName (key p))
          (enumerate 0 ms)"

definition parseProperty :: "member \<Rightarrow> clazz \<Rightarrow> 'a env_scheme \<Rightarrow> error + (propInfo \<times> 'a env_scheme)" where
  "parseProperty p c e =
     (case decorators p of
        [] \<Rightarrow> Inl TypeError
      | Decorator _ decExpr # _ \<Rightarrow>
          thenE (decoratorNames decExpr e) (\<lambda>((base, sub), e1).
          thenE (case callArguments decExpr of
                   Some args \<Rightarrow>
                     if length args \<noteq> 1
                     then warn ''Expected exactly one argument'' (loc_of decExpr) e1
                     else Inr e1
                 | None \<Rightarrow> Inr e1) (\<lambda>e2.
          Inr (\<lparr>isCallExpression = (callArguments decExpr \<noteq> None),
                 baseDecorator = base,
                 subDecorator = sub,
                 ptype = (if mtype p = ClassMethod
                          then (if kind p = Get then PGetter else PMethod) else PField),
                 pexpr = (if mtype p = ClassMethod then OfMethod p else OfValue (val p)),
                 callArg = (case callArguments decExpr of
                              Some (a # _) \<Rightarrow> Some a | _ \<Rightarrow> None),
                 setterExpr = findSetter (cbody c) p\<rparr>, e2))))"

text \<open>The builder \<^verbatim>\<open>j.classProperty(key, value)\<close>.\<close>

definition classProperty :: "expr \<Rightarrow> expr option \<Rightarrow> member" where
  "classProperty k v =
     \<lparr>mtype = ClassProperty, key = k, val = v, kind = Method, params = [], body = [],
      generator = False, async = False, returnType = None, decorators = [],
      static = False, comments = [], mloc = None\<rparr>"

definition prototypeMember :: "expr \<Rightarrow> expr \<Rightarrow> expr" where
  "prototypeMember clazzId k =
     MemberExpression None
       (MemberExpression None clazzId (Identifier None ''prototype'') False)
       k (\<not> isIdentifier k)"

text \<open>
  \<^verbatim>\<open>clazzPath.insertAfter\<close> puts the statement into the list that holds the class
  declaration, right after it. Where the parent of the declaration is no list (an
  \<^verbatim>\<open>export\<close> declaration), the toolkit's assertion that it is one fails.
\<close>

definition generateActionInitializationOnPrototype ::
  "clazz \<Rightarrow> member \<Rightarrow> propInfo \<Rightarrow> cstate \<Rightarrow> error + cstate" where
  "generateActionInitializationOnPrototype c property info s =
     (case cid c of
        None \<Rightarrow> warn ''Cannot transform action of anonymous class'' (mloc property) s
      | Some clazzId \<Rightarrow>
          (case cparent c of
             ExportDeclaration \<Rightarrow> Inl ToolkitError
           | StatementList n \<Rightarrow>
               Inr (s\<lparr>insertedAfter :=
                        Statement n (ExpressionStatement None
                          (AssignmentExpression None
                             (prototypeMember clazzId (key property))
                             (fnCall [''action'']
                                [callArg info, Some (prototypeMember clazzId (key property))])))
                        # insertedAfter s\<rparr>)))"


text \<open>
  \<^verbatim>\<open>handleProperty(property, effects, clazzPath)\<close>, called on the member at index \<open>i\<close> of
  the class body. It returns either the node it was given (\<open>Some i\<close>, with the node as
  it is after the call) or a node it has built (\<open>None\<close>). The text that the message
  about a static member takes from \<^verbatim>\<open>property.key.loc?.source\<close> is written
  \<^verbatim>\<open>undefined\<close>, the parser giving no such field.
\<close>

definition keep :: "nat \<Rightarrow> member \<Rightarrow> 's \<Rightarrow> error + ((nat option \<times> member) \<times> 's)" where
  "keep i property s = Inr ((Some i, property), s)"

definition handleAction ::
  "nat \<Rightarrow> member \<Rightarrow> propInfo \<Rightarrow> clazz \<Rightarrow> cstate \<Rightarrow> error + ((nat option \<times> member) \<times> cstate)" where
  "handleAction i property info c s =
     (if ptype info = PField \<and> subDecorator info = ''bound'' then
        (let arrowFn = toArrowFn (OfValue (val property)) in
         keep i (property\<lparr>val := Some (fnCall
                   [''action'', if isFunctionExpression arrowFn then ''bound'' else []]
                   [callArg info, arrowFn])\<rparr>) s)
      else if ptype info = PMethod \<and> subDecorator info = ''bound'' then
        (let arrowFn = toArrowFn (pexpr info);
             res = classProperty (key property) (Some (fnCall
                   [''action'', if isFunctionExpression arrowFn then ''bound'' else []]
                   [callArg info, arrowFn]))
         in Inr ((None, res\<lparr>comments := comments property\<rparr>), s))
      else if ptype info = PField \<and> subDecorator info = [] then
        keep i (property\<lparr>val := Some (fnCall [''action''] [callArg info, val property])\<rparr>) s
      else if ptype info = PMethod then
        thenE (generateActionInitializationOnPrototype c property info s) (keep i property)
      else
        thenE (warn ''Uknown case for undecorate action '' (mloc property) s) (keep i property))"

definition handleProperty ::
  "nat \<Rightarrow> member \<Rightarrow> clazz \<Rightarrow> cstate \<Rightarrow> error + ((nat option \<times> member) \<times> cstate)" where
  "handleProperty i property c s =
     (case decorators property of
        [] \<Rightarrow> keep i property s
      | Decorator dl expr # others \<Rightarrow>
          if others \<noteq> [] then
            thenE (warn ''Found multiple decorators, skipping..'' dl s) (keep i property)
          else if isIdentifier expr \<and> identName expr \<notin> decoratorsUsed s then
            thenE (warn (''Found non-mobx decorator @'' @ identName expr) dl s) (keep i property)
          else if static property then
            thenE (warn ''Static properties are not supported undefined'' (mloc property) s)
              (keep i property)
          else
            thenE (parseProperty property c s) (\<lambda>(info, s1).
              let property = property\<lparr>decorators := []\<rparr> in
              if baseDecorator info = ''action'' then
                handleAction i property info c (s1\<lparr>changed := True\<rparr>)
              else if baseDecorator info = ''observable'' then
                keep i (property\<lparr>val := Some (fnCall [''observable'', subDecorator info]
                                                   [val property])\<rparr>)
                  (s1\<lparr>changed := True, needsConstructor := True\<rparr>)
              else if baseDecorator info = ''computed'' then
                (let res = classProperty (key property) (Some (fnCall
                       [''computed'', subDecorator info]
                       [toArrowFn (pexpr info),
                        (case setterExpr info of
                           Some (_, m) \<Rightarrow> toArrowFn (OfMethod m) | None \<Rightarrow> None),
                        callArg info]))
                 in Inr ((None, res\<lparr>comments := comments property\<rparr>),
                         s1\<lparr>changed := True, needsConstructor := True,
                            membersToRemove :=
                              (case setterExpr info of
                                 Some (k, _) \<Rightarrow> membersToRemove s1 @ [k]
                               | None \<Rightarrow> membersToRemove s1)\<rparr>))
              else keep i property s1))"

text \<open>
  The \<^verbatim>\<open>map\<close> over the class body, with \<open>handleMember\<close> its callback:
  \<^verbatim>\<open>handleProperty\<close> on the properties and methods, in order, every other member
  returned as it is. \<open>c\<close> is the class with the body as it
  was before the \<^verbatim>\<open>map\<close>: the body array is replaced only after the \<^verbatim>\<open>map\<close>, and
  \<^verbatim>\<open>handleProperty\<close> changes nothing on a node but its value and its decorators, which
  the search for the setter does not read.
\<close>

definition handleMember ::
  "nat \<Rightarrow> member \<Rightarrow> clazz \<Rightarrow> cstate \<Rightarrow> error + ((nat option \<times> member) \<times> cstate)" where
  "handleMember i prop c s =
     (if isClassMember prop then handleProperty i prop c s else keep i prop s)"

fun mapMembers ::
  "nat \<Rightarrow> member list \<Rightarrow> clazz \<Rightarrow> cstate \<Rightarrow> error + ((nat option \<times> member) list \<times> cstate)" where
  "mapMembers i [] c s = Inr ([], s)"
| "mapMembers i (prop # props) c s =
     thenE (handleMember i prop c s)
       (\<lambda>(r, s1). thenE (mapMembers (Suc i) props c s1) (\<lambda>(rs, s2). Inr (r # rs, s2)))"

text \<open>The \<^verbatim>\<open>filter\<close> that drops the nodes listed in \<open>membersToRemove\<close>.\<close>

definition removeMembers :: "nat list \<Rightarrow> (nat option \<times> member) list \<Rightarrow> member list" where
  "removeMembers rm rs =
     map snd (filter (\<lambda>(origin, m). case origin of
                                        Some k \<Rightarrow> k \<notin> set rm | None \<Rightarrow> True) rs)"

primrec findIndex :: "('a \<Rightarrow> bool) \<Rightarrow> 'a list \<Rightarrow> nat option" where
  "findIndex P [] = None"
| "findIndex P (x # xs) =
     (if P x then Some 0 else map_option Suc (findIndex P xs))"

definition splice0 :: "nat \<Rightarrow> 'a \<Rightarrow> 'a list \<Rightarrow> 'a list" where
  "splice0 i x xs = take i xs @ x # drop i xs"

definition superCall :: statement where
  "superCall = ExpressionStatement None (CallExpression None (Super None) [])"

definition initializeObservablesCall :: statement where
  "initializeObservablesCall =
     ExpressionStatement None
       (CallExpression None (Identifier None ''initializeObservables'') [ThisExpression None])"

definition isSuperCall :: "statement \<Rightarrow> bool" where
  "isSuperCall st =
     (case st of
        ExpressionStatement _ (CallExpression _ (Super _) _) \<Rightarrow> True
      | _ \<Rightarrow> False)"

text \<open>The builder \<^verbatim>\<open>j.methodDefinition("constructor", key, function)\<close>.\<close>

definition constructorDecl :: "bool \<Rightarrow> member" where
  "constructorDecl needsSuper =
     \<lparr>mtype = MethodDefinition, key = Identifier None ''constructor'',
      val = Some (FunctionExpression None []
              (if needsSuper then [superCall, initializeObservablesCall]
               else [initializeObservablesCall]) False False None),
      kind = Constructor, params = [], body = [],
      generator = False, async = False, returnType = None, decorators = [],
      static = False, comments = [], mloc = None\<rparr>"

definition className :: "clazz \<Rightarrow> string" where
  "className c = (case cid c of Some (Identifier _ n) \<Rightarrow> n | _ \<Rightarrow> ''undefined'')"

definition createConstructor :: "clazz \<Rightarrow> 'a env_scheme \<Rightarrow> error + (clazz \<times> 'a env_scheme)" where
  "createConstructor c e =
     (let needsSuper = (superClass c \<noteq> None) in
      case findIndex (\<lambda>m. mtype m = ClassMethod \<and> kind m = Constructor) (cbody c) of
        None \<Rightarrow>
          thenE (if needsSuper
                 then warn (''Generated new constructor for class '' @ className c @
                        ''. But since the class does have a base class, it might be needed to revisit the arguments that are passed to `super()`'')
                        (cloc c) e
                 else Inr e) (\<lambda>e1.
            Inr (c\<lparr>cbody :=
                     (case findIndex (\<lambda>m. mtype m = ClassMethod) (cbody c) of
                        None \<Rightarrow> cbody c @ [constructorDecl needsSuper]
                      | Some k \<Rightarrow> splice0 k (constructorDecl needsSuper) (cbody c))\<rparr>, e1))
      | Some k \<Rightarrow>
          (let ctor = cbody c ! k;
               hasSuper = (case body ctor of [] \<Rightarrow> False | st # _ \<Rightarrow> isSuperCall st)
           in Inr (c\<lparr>cbody := (cbody c)[k := ctor\<lparr>body :=
                        splice0 (if hasSuper then 1 else 0) initializeObservablesCall (body ctor)\<rparr>]\<rparr>,
                   e)))"


section \<open>The three passes of \<^verbatim>\<open>tranform\<close>\<close>

subsection \<open>The imports\<close>

text \<open>
  The loop over the specifiers of one import from \<^verbatim>\<open>mobx\<close>, with the index of the
  specifier: it fills \<open>decoratorsUsed\<close>, sets \<open>usesDecorate\<close> and leaves in
  \<open>decorateIndex\<close> the index of the last specifier that imports \<^verbatim>\<open>decorate\<close>.
\<close>

fun scanSpecifiers :: "specifier list \<Rightarrow> nat \<Rightarrow> env \<times> nat option \<Rightarrow> env \<times> nat option" where
  "scanSpecifiers [] idx acc = acc"
| "scanSpecifiers (sp # sps) idx (e, decorateIndex) =
     (case sp of
        ImportSpecifier _ imported \<Rightarrow>
          (let e1 = (if imported \<in> set validDecorators
                     then e\<lparr>decoratorsUsed := insert imported (decoratorsUsed e)\<rparr> else e)
           in if imported = ''decorate''
              then scanSpecifiers sps (Suc idx) (e1\<lparr>usesDecorate := True\<rparr>, Some idx)
              else scanSpecifiers sps (Suc idx) (e1, decorateIndex))
      | _ \<Rightarrow> scanSpecifiers sps (Suc idx) (e, decorateIndex))"

definition scanImport :: "node \<Rightarrow> env \<Rightarrow> node \<times> env" where
  "scanImport n e =
     (case n of
        ImportDeclaration l specifiers src \<Rightarrow>
          if src = ''mobx'' then
            (case scanSpecifiers specifiers 0 (e, None) of
               (e1, None) \<Rightarrow> (n, e1)
             | (e1, Some k) \<Rightarrow>
                 (ImportDeclaration l (take k specifiers @ drop (Suc k) specifiers) src, e1))
          else (n, e)
      | _ \<Rightarrow> (n, e))"

fun scanImports :: "node list \<Rightarrow> env \<Rightarrow> node list \<times> env" where
  "scanImports [] e = ([], e)"
| "scanImports (n # ns) e =
     (case scanImport n e of (n1, e1) \<Rightarrow>
        (case scanImports ns e1 of (ns1, e2) \<Rightarrow> (n1 # ns1, e2)))"

subsection \<open>The calls of \<^verbatim>\<open>decorate\<close>\<close>

text \<open>
  The state of the loop over the entries of one call: the body of the target class, the
  counter \<open>insertedMemberOffset\<close> and the flag \<open>canRemoveDecorateCall\<close>.
\<close>

record dstate = env +
  targetBody :: "member list"
  insertedMemberOffset :: nat
  canRemoveDecorateCall :: bool

definition denotesObservable :: "expr \<Rightarrow> bool" where
  "denotesObservable v =
     (case v of
        Identifier _ a \<Rightarrow> a = ''observable''
      | MemberExpression _ ob _ _ \<Rightarrow> isNamed ob ''observable''
      | _ \<Rightarrow> False)"

definition isArrayExpression :: "expr \<Rightarrow> bool" where
  "isArrayExpression v = (case v of ArrayExpression _ _ \<Rightarrow> True | _ \<Rightarrow> False)"

definition decorateEntry :: "string \<Rightarrow> objmember \<Rightarrow> dstate \<Rightarrow> error + dstate" where
  "decorateEntry targetName prop s =
     (case prop of
        OtherObjectMember pl _ \<Rightarrow>
          thenE (warn ''Expected plain property definition'' pl s)
            (\<lambda>s1. Inr (s1\<lparr>canRemoveDecorateCall := False\<rparr>))
      | ObjectProperty pl k v isMethod shorthand computed \<Rightarrow>
          if isMethod \<or> shorthand \<or> computed \<or> \<not> isIdentifier k then
            thenE (warn ''Expected plain property definition'' pl s)
              (\<lambda>s1. Inr (s1\<lparr>canRemoveDecorateCall := False\<rparr>))
          else if isArrayExpression v then
            thenE (warn ''Cannot undecorate composed decorators'' (loc_of v) s)
              (\<lambda>s1. Inr (s1\<lparr>canRemoveDecorateCall := False\<rparr>))
          else
            (case findIndex (\<lambda>m. isClassMember m \<and> isNamed (key m) (identName k))
                    (targetBody s) of
               None \<Rightarrow>
                 if denotesObservable v then
                   Inr (s\<lparr>targetBody :=
                            splice0 (insertedMemberOffset s)
                              ((classProperty k None)\<lparr>decorators := [Decorator None v]\<rparr>)
                              (targetBody s),
                          insertedMemberOffset := Suc (insertedMemberOffset s)\<rparr>)
                 else
                   warn (''Failed to find member '' @ quoted (identName k) @ '' in class '' @
                         quoted targetName)
                     pl (s\<lparr>canRemoveDecorateCall := False\<rparr>)
             | Some i \<Rightarrow>
                 Inr (s\<lparr>targetBody :=
                          (targetBody s)[i := (targetBody s ! i)\<lparr>decorators := [Decorator None v]\<rparr>]\<rparr>)))"

fun decorateEntries :: "string \<Rightarrow> objmember list \<Rightarrow> dstate \<Rightarrow> error + dstate" where
  "decorateEntries targetName [] s = Inr s"
| "decorateEntries targetName (prop # props) s =
     thenE (decorateEntry targetName prop s) (decorateEntries targetName props)"

definition startCall :: "env \<Rightarrow> member list \<Rightarrow> dstate" where
  "startCall e ms =
     \<lparr>filePath = filePath e, lines = lines e,
      changed = changed e, needsInitializeImport = needsInitializeImport e,
      decoratorsUsed = decoratorsUsed e, usesDecorate = usesDecorate e, console = console e,
      targetBody = ms, insertedMemberOffset = 0, canRemoveDecorateCall = True\<rparr>"

definition envOfCall :: "dstate \<Rightarrow> env" where
  "envOfCall s =
     \<lparr>filePath = filePath s, lines = lines s,
      changed = changed s, needsInitializeImport = needsInitializeImport s,
      decoratorsUsed = decoratorsUsed s, usesDecorate = usesDecorate s, console = console s\<rparr>"

text \<open>
  The calls that the pass visits: every call expression in the statements whose callee is
  the identifier \<^verbatim>\<open>decorate\<close>, a call before the calls inside it, the children of a node
  in their order. A call is \<^emph>\<open>direct\<close> when its parent is the statement of the entry, so
  that the parent of its parent is the node whose body holds the statement.
\<close>

definition isDecorateCall :: "expr \<Rightarrow> bool" where
  "isDecorateCall x = (case x of CallExpression _ callee _ \<Rightarrow> isNamed callee ''decorate'' | _ \<Rightarrow> False)"

fun callsE :: "expr \<Rightarrow> expr list"
  and callsEs :: "expr list \<Rightarrow> expr list"
  and callsO :: "objmember \<Rightarrow> expr list"
  and callsOs :: "objmember list \<Rightarrow> expr list"
  and callsS :: "statement \<Rightarrow> expr list"
  and callsSs :: "statement list \<Rightarrow> expr list" where
  "callsE (Identifier l a) = []"
| "callsE (MemberExpression l ob pr c) = callsE ob @ callsE pr"
| "callsE (CallExpression l callee args) =
     (if isNamed callee ''decorate'' then [CallExpression l callee args] else []) @
     callsE callee @ callsEs args"
| "callsE (ArrayExpression l es) = callsEs es"
| "callsE (ObjectExpression l ps) = callsOs ps"
| "callsE (AssignmentExpression l x y) = callsE x @ callsE y"
| "callsE (ArrowFunctionExpression l ps sts a r) = callsSs sts"
| "callsE (FunctionExpression l ps sts g a r) = callsSs sts"
| "callsE (ThisExpression l) = []"
| "callsE (Super l) = []"
| "callsE (OtherExpression l ty es sts) = callsEs es @ callsSs sts"
| "callsE Removed = []"
| "callsEs [] = []"
| "callsEs (e # es) = callsE e @ callsEs es"
| "callsO (ObjectProperty l k v m s c) = callsE k @ callsE v"
| "callsO (OtherObjectMember l es) = callsEs es"
| "callsOs [] = []"
| "callsOs (p # ps) = callsO p @ callsOs ps"
| "callsS (ExpressionStatement l e) = callsE e"
| "callsS (OtherStatement l ty es sts) = callsEs es @ callsSs sts"
| "callsSs [] = []"
| "callsSs (st # sts) = callsS st @ callsSs sts"

definition children :: "statement \<Rightarrow> expr list" where
  "children st = (case st of ExpressionStatement _ e \<Rightarrow> [e] | OtherStatement _ _ es _ \<Rightarrow> es)"

text \<open>
  \<^verbatim>\<open>callPath.parent.prune()\<close>, for the call at the position \<open>l\<close>, which is what names a
  call here: no two calls of \<^verbatim>\<open>decorate\<close> begin at the same place. The parent of the call
  is taken out of the array that holds it, or out of the field that holds it, where
  \<open>Removed\<close> is left. The toolkit then looks at what remains: an expression statement
  without its expression and a variable declaration without declarators are pruned in
  their turn. The result \<open>None\<close> says that the node itself is to be taken out of its
  parent. A call that is in the tree no more is not found, and nothing changes.
\<close>

definition isTarget :: "loc \<Rightarrow> expr \<Rightarrow> bool" where
  "isTarget l x = (case x of CallExpression l' callee _ \<Rightarrow> l' = l \<and> isNamed callee ''decorate''
                   | _ \<Rightarrow> False)"

definition orRemoved :: "expr option \<Rightarrow> expr" where
  "orRemoved r = (case r of None \<Rightarrow> Removed | Some x \<Rightarrow> x)"

fun pruneE :: "loc \<Rightarrow> expr \<Rightarrow> expr option"
  and pruneEs :: "loc \<Rightarrow> expr list \<Rightarrow> expr list"
  and pruneO :: "loc \<Rightarrow> objmember \<Rightarrow> objmember option"
  and pruneOs :: "loc \<Rightarrow> objmember list \<Rightarrow> objmember list"
  and pruneS :: "loc \<Rightarrow> statement \<Rightarrow> statement option"
  and pruneSs :: "loc \<Rightarrow> statement list \<Rightarrow> statement list" where
  "pruneE t (Identifier l a) = Some (Identifier l a)"
| "pruneE t (MemberExpression l ob pr c) =
     (if isTarget t ob \<or> isTarget t pr then None
      else Some (MemberExpression l (orRemoved (pruneE t ob)) (orRemoved (pruneE t pr)) c))"
| "pruneE t (CallExpression l callee args) =
     (if isTarget t callee \<or> list_ex (isTarget t) args then None
      else Some (CallExpression l (orRemoved (pruneE t callee)) (pruneEs t args)))"
| "pruneE t (ArrayExpression l es) =
     (if list_ex (isTarget t) es then None else Some (ArrayExpression l (pruneEs t es)))"
| "pruneE t (ObjectExpression l ps) = Some (ObjectExpression l (pruneOs t ps))"
| "pruneE t (AssignmentExpression l x y) =
     (if isTarget t x \<or> isTarget t y then None
      else Some (AssignmentExpression l (orRemoved (pruneE t x)) (orRemoved (pruneE t y))))"
| "pruneE t (ArrowFunctionExpression l ps sts a r) =
     Some (ArrowFunctionExpression l ps (pruneSs t sts) a r)"
| "pruneE t (FunctionExpression l ps sts g a r) =
     Some (FunctionExpression l ps (pruneSs t sts) g a r)"
| "pruneE t (ThisExpression l) = Some (ThisExpression l)"
| "pruneE t (Super l) = Some (Super l)"
| "pruneE t (OtherExpression l ty es sts) =
     (if list_ex (isTarget t) es then None
      else Some (OtherExpression l ty (pruneEs t es) (pruneSs t sts)))"
| "pruneE t Removed = Some Removed"
| "pruneEs t [] = []"
| "pruneEs t (e # es) = (case pruneE t e of None \<Rightarrow> pruneEs t es | Some e' \<Rightarrow> e' # pruneEs t es)"
| "pruneO t (ObjectProperty l k v m s c) =
     (if isTarget t k \<or> isTarget t v then None
      else Some (ObjectProperty l (orRemoved (pruneE t k)) (orRemoved (pruneE t v)) m s c))"
| "pruneO t (OtherObjectMember l es) =
     (if list_ex (isTarget t) es then None else Some (OtherObjectMember l (pruneEs t es)))"
| "pruneOs t [] = []"
| "pruneOs t (p # ps) = (case pruneO t p of None \<Rightarrow> pruneOs t ps | Some p' \<Rightarrow> p' # pruneOs t ps)"
| "pruneS t (ExpressionStatement l e) =
     (if isTarget t e then None
      else (case pruneE t e of None \<Rightarrow> None | Some e' \<Rightarrow> Some (ExpressionStatement l e')))"
| "pruneS t (OtherStatement l ty es sts) =
     (if list_ex (isTarget t) es then None
      else if ty = ''VariableDeclaration'' \<and> es \<noteq> [] \<and> pruneEs t es = [] then None
      else Some (OtherStatement l ty (pruneEs t es) (pruneSs t sts)))"
| "pruneSs t [] = []"
| "pruneSs t (st # sts) =
     (case pruneS t st of None \<Rightarrow> pruneSs t sts | Some st' \<Rightarrow> st' # pruneSs t sts)"

text \<open>
  The file during this pass. Each entry keeps the index it had when the pass began as its
  handle: the call paths are collected before the first call is looked at, and a class
  is changed in place.
\<close>

type_synonym tree = "(nat \<times> node) list"

definition classNamed :: "string \<Rightarrow> nat \<times> node \<Rightarrow> (nat \<times> clazz) option" where
  "classNamed n hn =
     (case snd hn of
        ClassDeclaration c \<Rightarrow>
          (case cid c of
             Some x \<Rightarrow> if isNamed x n then Some (fst hn, c) else None
           | None \<Rightarrow> None)
      | _ \<Rightarrow> None)"

definition setClassBody :: "nat \<Rightarrow> member list \<Rightarrow> tree \<Rightarrow> tree" where
  "setClassBody h ms t =
     map (\<lambda>(h', n). if h' = h
                     then (case n of ClassDeclaration c \<Rightarrow> (h', ClassDeclaration (c\<lparr>cbody := ms\<rparr>))
                           | _ \<Rightarrow> (h', n))
                     else (h', n)) t"

definition prune :: "nat \<Rightarrow> loc \<Rightarrow> tree \<Rightarrow> tree" where
  "prune h l t =
     List.map_filter
       (\<lambda>(h', n). if h' = h
                   then (case n of
                           Statement ow st \<Rightarrow> map_option (\<lambda>st'. (h', Statement ow st')) (pruneS l st)
                         | _ \<Rightarrow> Some (h', n))
                   else Some (h', n)) t"

text \<open>
  The class that a call is about, among the declarations of the name (\<open>None\<close> when there
  is none): the first of those whose parent is the parent of the call's parent, or else
  the first of all. \<open>owner\<close> is the node whose body holds the statement of a direct
  call; a call that is not direct has a parent inside its statement, which is the parent
  of no declaration.
\<close>

definition bestDeclaration :: "nat option \<Rightarrow> (nat \<times> clazz) list \<Rightarrow> (nat \<times> clazz) option" where
  "bestDeclaration owner declarations =
     (case declarations of
        [] \<Rightarrow> None
      | d # _ \<Rightarrow>
          (case filter (\<lambda>(hc, c). Some (cparent c) = map_option StatementList owner)
                  declarations of
             [] \<Rightarrow> Some d
           | b # _ \<Rightarrow> Some b))"

text \<open>
  The body of the \<^verbatim>\<open>forEach\<close> over the calls, for the call \<open>call\<close> found in the entry with
  the handle \<open>h\<close>.
\<close>

definition decorateCall ::
  "nat \<Rightarrow> nat option \<Rightarrow> expr \<Rightarrow> tree \<Rightarrow> env \<Rightarrow> error + (tree \<times> env)" where
  "decorateCall h owner call t e =
     (case call of
        CallExpression cl callee args \<Rightarrow>
          if length args \<noteq> 2 then
            thenE (warn ''Expected a decorate call with two arguments'' cl e) (\<lambda>e1. Inr (t, e1))
          else
            (case args ! 0 of
               Identifier tloc targetName \<Rightarrow>
                 (case args ! 1 of
                    ObjectExpression ol props \<Rightarrow>
                      (case bestDeclaration owner (List.map_filter (classNamed targetName) t) of
                         None \<Rightarrow>
                           thenE (warn (''Expected exactly one class declaration for '' @
                                          quoted targetName @ '' but found 0'') tloc e)
                             (\<lambda>e1. Inr (t, e1))
                       | Some (hc, clazz) \<Rightarrow>
                           thenE (decorateEntries targetName props (startCall e (cbody clazz)))
                             (\<lambda>s. let t1 = setClassBody hc (targetBody s) t;
                                       t2 = (if canRemoveDecorateCall s then prune h cl t1 else t1)
                                   in Inr (t2, (envOfCall s)\<lparr>changed := True\<rparr>)))
                  | mapping \<Rightarrow>
                      thenE (warn ''Expected a plain object as second argument to decorate''
                               (loc_of mapping) e)
                        (\<lambda>e1. Inr (t, e1)))
             | target \<Rightarrow>
                 thenE (warn ''Expected an identifier as first argument to decorate''
                          (loc_of target) e)
                   (\<lambda>e1. Inr (t, e1)))
      | _ \<Rightarrow> Inr (t, e))"

text \<open>The calls of an entry, each with the handle of the entry and the owner where it is direct.\<close>

definition callsOf :: "nat \<times> node \<Rightarrow> (nat \<times> nat option \<times> expr) list" where
  "callsOf hn =
     (case snd hn of
        Statement ow st \<Rightarrow>
          map (\<lambda>c. (fst hn, if c \<in> set (children st) then Some ow else None, c)) (callsS st)
      | _ \<Rightarrow> [])"

fun decorateCalls ::
  "(nat \<times> nat option \<times> expr) list \<Rightarrow> tree \<Rightarrow> env \<Rightarrow> error + (tree \<times> env)" where
  "decorateCalls [] t e = Inr (t, e)"
| "decorateCalls ((h, owner, call) # cs) t e =
     thenE (decorateCall h owner call t e) (\<lambda>(t1, e1). decorateCalls cs t1 e1)"

definition rewriteDecorateCalls :: "node list \<Rightarrow> env \<Rightarrow> error + (node list \<times> env)" where
  "rewriteDecorateCalls program e =
     thenE (decorateCalls (concat (map callsOf (enumerate 0 program))) (enumerate 0 program) e)
       (\<lambda>(t, e1). Inr (map snd t, e1))"


subsection \<open>The classes\<close>

definition startClass :: "env \<Rightarrow> cstate" where
  "startClass e =
     \<lparr>filePath = filePath e, lines = lines e,
      changed = changed e, needsInitializeImport = needsInitializeImport e,
      decoratorsUsed = decoratorsUsed e, usesDecorate = usesDecorate e, console = console e,
      needsConstructor = False, membersToRemove = [], insertedAfter = []\<rparr>"

definition envOfClass :: "cstate \<Rightarrow> env" where
  "envOfClass s =
     \<lparr>filePath = filePath s, lines = lines s,
      changed = changed s, needsInitializeImport = needsInitializeImport s,
      decoratorsUsed = decoratorsUsed s, usesDecorate = usesDecorate s, console = console s\<rparr>"

text \<open>
  The body of the \<^verbatim>\<open>forEach\<close> over the class declarations: the rewritten class, the
  statements inserted after it, and the variables.
\<close>

definition rewriteClass :: "clazz \<Rightarrow> env \<Rightarrow> error + ((clazz \<times> node list) \<times> env)" where
  "rewriteClass c e =
     thenE (mapMembers 0 (cbody c) c (startClass e)) (\<lambda>(rs, s).
       let c1 = c\<lparr>cbody := removeMembers (membersToRemove s) rs\<rparr> in
       if needsConstructor s then
         thenE (createConstructor c1 (envOfClass s)) (\<lambda>(c2, e1).
           Inr ((c2, insertedAfter s), e1\<lparr>needsInitializeImport := True\<rparr>))
       else Inr ((c1, insertedAfter s), envOfClass s))"

fun rewriteClasses :: "node list \<Rightarrow> env \<Rightarrow> error + (node list \<times> env)" where
  "rewriteClasses [] e = Inr ([], e)"
| "rewriteClasses (n # ns) e =
     (case n of
        ClassDeclaration c \<Rightarrow>
          thenE (rewriteClass c e) (\<lambda>((c1, after), e1).
            thenE (rewriteClasses ns e1) (\<lambda>(ns1, e2).
              Inr (ClassDeclaration c1 # after @ ns1, e2)))
      | _ \<Rightarrow> thenE (rewriteClasses ns e) (\<lambda>(ns1, e1). Inr (n # ns1, e1)))"

subsection \<open>The import of \<^verbatim>\<open>initializeObservables\<close>\<close>

definition isMobxImport :: "node \<Rightarrow> bool" where
  "isMobxImport n = (case n of ImportDeclaration _ _ src \<Rightarrow> src = ''mobx'' | _ \<Rightarrow> False)"

definition addSpecifier :: "node \<Rightarrow> node" where
  "addSpecifier n =
     (case n of
        ImportDeclaration l specifiers src \<Rightarrow>
          ImportDeclaration l (specifiers @ [ImportSpecifier None ''initializeObservables'']) src
      | _ \<Rightarrow> n)"

definition addInitializeImport :: "node list \<Rightarrow> env \<Rightarrow> node list \<times> env" where
  "addInitializeImport program e =
     (case findIndex isMobxImport program of
        None \<Rightarrow>
          (program,
           e\<lparr>console := console e @
              [Message (''Failed to find mobx import, can't add initializeObservables as dependency in ''
                        @ filePath e)]\<rparr>)
      | Some k \<Rightarrow> (program[k := addSpecifier (program ! k)], e))"

subsection \<open>\<^verbatim>\<open>tranform\<close>\<close>

text \<open>
  What a run gives: the value returned (\<open>Unchanged\<close> for \<^verbatim>\<open>undefined\<close>, \<open>Source\<close> for the
  tree handed to \<^verbatim>\<open>toSource\<close>), the tree as the run left it in memory, and the
  diagnostics written.
\<close>

datatype outcome = Unchanged | Source "node list"

record result =
  returned :: outcome
  tree :: "node list"
  diagnostics :: "diagnostic list"

text \<open>
  \<open>ignoreImports\<close> is the truth value of \<^verbatim>\<open>options?.ignoreImports\<close>; \<open>program\<close> is what
  the parser makes of \<^verbatim>\<open>fileInfo.source\<close>.
\<close>

definition initialEnv :: "fileInfo \<Rightarrow> bool \<Rightarrow> env" where
  "initialEnv info ignoreImports =
     \<lparr>filePath = path info, lines = splitLines (source info),
      changed = False, needsInitializeImport = False,
      decoratorsUsed = (if ignoreImports then set validDecorators else {}),
      usesDecorate = ignoreImports, console = []\<rparr>"

definition tranform :: "fileInfo \<Rightarrow> bool \<Rightarrow> node list \<Rightarrow> error + result" where
  "tranform info ignoreImports program =
     (case scanImports program (initialEnv info ignoreImports) of (p1, e1) \<Rightarrow>
        thenE (if usesDecorate e1 then rewriteDecorateCalls p1 e1 else Inr (p1, e1)) (\<lambda>(p2, e2).
        thenE (rewriteClasses p2 e2) (\<lambda>(p3, e3).
          case (if needsInitializeImport e3 then addInitializeImport p3 e3 else (p3, e3)) of
            (p4, e4) \<Rightarrow>
              Inr \<lparr>returned = (if decoratorsUsed e4 = {} \<and> \<not> usesDecorate e4 then Unchanged
                               else if changed e4 then Source p4 else Unchanged),
                   tree = p4, diagnostics = console e4\<rparr>)))"

section \<open>Example programs\<close>

text \<open>
  A file with the given lines, each ended by a line feed, or each but the last ended by a
  carriage return alone.
\<close>

definition lfFile :: "string list \<Rightarrow> fileInfo" where
  "lfFile ls = \<lparr>path = ''A.js'', source = concat (map (\<lambda>l. l @ [CHR 0x0A]) ls)\<rparr>"

definition crFile :: "string list \<Rightarrow> fileInfo" where
  "crFile ls = \<lparr>path = ''A.js'', source = concat (map (\<lambda>l. l @ [CHR 0x0D]) ls)\<rparr>"

text \<open>Parsed members, declarations and calls, with the positions the parser gives them.\<close>

definition field :: "nat \<Rightarrow> string \<Rightarrow> expr option \<Rightarrow> decorator list \<Rightarrow> member" where
  "field line name v ds =
     \<lparr>mtype = ClassProperty, key = Identifier (Some (line, 4)) name, val = v, kind = Method,
      params = [], body = [], generator = False, async = False, returnType = None,
      decorators = ds, static = False, comments = [], mloc = Some (line, 2)\<rparr>"

definition classMethod :: "nat \<Rightarrow> method_kind \<Rightarrow> string \<Rightarrow> statement list \<Rightarrow> decorator list \<Rightarrow> member" where
  "classMethod line k name stmts ds =
     \<lparr>mtype = ClassMethod, key = Identifier (Some (line, 4)) name, val = None, kind = k,
      params = [], body = stmts, generator = False, async = False, returnType = None,
      decorators = ds, static = False, comments = [], mloc = Some (line, 2)\<rparr>"

definition importMobx :: "string list \<Rightarrow> node" where
  "importMobx names =
     ImportDeclaration (Some (1, 0)) (map (ImportSpecifier (Some (1, 9))) names) ''mobx''"

definition classA :: "member list \<Rightarrow> node" where
  "classA ms =
     ClassDeclaration \<lparr>cid = Some (Identifier (Some (2, 6)) ''A''), superClass = None,
                       cbody = ms, cloc = Some (2, 0), cparent = StatementList 0\<rparr>"

text \<open>
  The class of \<^verbatim>\<open>export default class { ... }\<close>: its parent is the \<^verbatim>\<open>export\<close> declaration,
  and the tree gives it no position.
\<close>

definition anonymousClass :: "member list \<Rightarrow> node" where
  "anonymousClass ms =
     ClassDeclaration \<lparr>cid = None, superClass = None, cbody = ms, cloc = None,
                       cparent = ExportDeclaration\<rparr>"

definition entry :: "nat \<Rightarrow> string \<Rightarrow> expr \<Rightarrow> objmember" where
  "entry line n v =
     ObjectProperty (Some (line, 14)) (Identifier (Some (line, 14)) n) v False False False"

definition decorateA :: "nat \<Rightarrow> objmember list \<Rightarrow> node" where
  "decorateA line entries =
     Statement 0 (ExpressionStatement (Some (line, 0))
       (CallExpression (Some (line, 0)) (Identifier (Some (line, 0)) ''decorate'')
          [Identifier (Some (line, 9)) ''A'', ObjectExpression (Some (line, 12)) entries]))"

definition num :: "expr" where
  "num = OtherExpression (Some (3, 8)) ''NumericLiteral'' [] []"

definition ident :: "nat \<Rightarrow> string \<Rightarrow> expr" where
  "ident line n = Identifier (Some (line, 3)) n"

definition dec :: "nat \<Rightarrow> expr \<Rightarrow> decorator" where
  "dec line x = Decorator (Some (line, 2)) x"

text \<open>A file whose class declaration takes the lines 2 to 4 and whose call stands on line 5.\<close>

definition synthesized_decorator_file :: fileInfo where
  \<open>synthesized_decorator_file =
     lfFile [''import { decorate } from "mobx"'', ''class A {'', ''  x = 1'', ''}'',
             ''decorate(A, { x: foo })'']\<close>

definition synthesized_decorator_program :: "node list" where
  "synthesized_decorator_program =
     [importMobx [''decorate''],
      classA [field 3 ''x'' (Some num) []],
      decorateA 5 [entry 5 ''x'' (Identifier (Some (5, 17)) ''foo'')]]"

text \<open>\<^verbatim>\<open>class A { @foo @bar x = 1 }\<close>, in a file that imports nothing.\<close>

definition two_decorators_lines :: "string list" where
  "two_decorators_lines = ['''', ''class A {'', ''  @foo @bar x = 1'', ''}'']"

definition two_decorators_file :: fileInfo where
  "two_decorators_file = lfFile two_decorators_lines"

definition two_decorators_program :: "node list" where
  "two_decorators_program =
     [classA [field 3 ''x'' (Some num) [dec 3 (ident 3 ''foo''), dec 3 (ident 3 ''bar'')]]]"

text \<open>
  \<^verbatim>\<open>class A { @foo.bar x = 1 }\<close>, in a file that imports nothing, and the tree as the run
  leaves it.
\<close>

definition unimported_member_file :: fileInfo where
  "unimported_member_file = lfFile ['''', ''class A {'', ''  @foo.bar x = 1'', ''}'']"

definition unimported_member_program :: "node list" where
  "unimported_member_program =
     [classA [field 3 ''x'' (Some num)
                [dec 3 (MemberExpression (Some (3, 3)) (ident 3 ''foo'') (ident 3 ''bar'') False)]]]"

definition unimported_member_tree :: "node list" where
  "unimported_member_tree = [classA [field 3 ''x'' (Some num) []]]"

text \<open>\<^verbatim>\<open>import { computed } from "mobx"\<close>, \<^verbatim>\<open>class A { @computed x = 1 }\<close>, and what the run returns.\<close>

definition computed_field_file :: fileInfo where
  \<open>computed_field_file =
     lfFile [''import { computed } from "mobx"'', ''class A {'', ''  @computed x = 1'', ''}'']\<close>

definition computed_field_program :: "node list" where
  "computed_field_program =
     [importMobx [''computed''], classA [field 3 ''x'' (Some num) [dec 3 (ident 3 ''computed'')]]]"

definition computed_field_output :: "node list" where
  "computed_field_output =
     [ImportDeclaration (Some (1, 0))
        [ImportSpecifier (Some (1, 9)) ''computed'', ImportSpecifier None ''initializeObservables'']
        ''mobx'',
      classA [classProperty (Identifier (Some (3, 4)) ''x'')
                (Some (CallExpression None (Identifier None ''computed'') [num])),
              constructorDecl False]]"

text \<open>
  \<^verbatim>\<open>import { action } from "mobx"\<close>,
  \<^verbatim>\<open>class A { @foo.bar x = 1; @baz(1) z = 1; @action y = 1 }\<close>, and what the run returns.
\<close>

definition foreign_decorators_file :: fileInfo where
  \<open>foreign_decorators_file =
     lfFile [''import { action } from "mobx"'', ''class A {'', ''  @foo.bar x = 1'',
             ''  @baz(1) z = 1'', ''  @action y = 1'', ''}'']\<close>

definition foreign_decorators_program :: "node list" where
  "foreign_decorators_program =
     [importMobx [''action''],
      classA [field 3 ''x'' (Some num)
                [dec 3 (MemberExpression (Some (3, 3)) (ident 3 ''foo'') (ident 3 ''bar'') False)],
              field 4 ''z'' (Some num)
                [dec 4 (CallExpression (Some (4, 3)) (ident 4 ''baz'') [num])],
              field 5 ''y'' (Some num) [dec 5 (ident 5 ''action'')]]]"

definition foreign_decorators_output :: "node list" where
  "foreign_decorators_output =
     [importMobx [''action''],
      classA [field 3 ''x'' (Some num) [],
              field 4 ''z'' (Some num) [],
              field 5 ''y'' (Some (CallExpression None (Identifier None ''action'') [num])) []]]"

text \<open>
  \<^verbatim>\<open>import { action } from "mobx"\<close>, \<^verbatim>\<open>export default class { @action m() {} }\<close>, and
  what the run returns.
\<close>

definition anonymous_action_file :: fileInfo where
  \<open>anonymous_action_file =
     lfFile [''import { action } from "mobx"'', ''export default class {'', ''  @action m() {}'',
             ''}'']\<close>

definition anonymous_action_program :: "node list" where
  "anonymous_action_program =
     [importMobx [''action''], anonymousClass [classMethod 3 Method ''m'' [] [dec 3 (ident 3 ''action'')]]]"

definition anonymous_action_output :: "node list" where
  "anonymous_action_output =
     [importMobx [''action''], anonymousClass [classMethod 3 Method ''m'' [] []]]"

text \<open>
  \<^verbatim>\<open>class A { x = 1 }\<close> and \<^verbatim>\<open>decorate(A, { x: [observable, foo] })\<close>, in a file whose
  lines end with a line feed, and in the same file with carriage returns for line ends;
  what the run returns on the first.
\<close>

definition array_entry_lines :: "string list" where
  \<open>array_entry_lines =
     [''import { decorate, observable } from "mobx"'', ''class A {'', ''  x = 1'', ''}'',
      ''decorate(A, { x: [observable, foo] })'']\<close>

definition array_entry_program :: "node list" where
  "array_entry_program =
     [importMobx [''decorate'', ''observable''],
      classA [field 3 ''x'' (Some num) []],
      decorateA 5 [entry 5 ''x''
        (ArrayExpression (Some (5, 17)) [Identifier (Some (5, 18)) ''observable'',
                                         Identifier (Some (5, 30)) ''foo''])]]"

definition array_entry_output :: "node list" where
  "array_entry_output =
     [importMobx [''observable''],
      classA [field 3 ''x'' (Some num) []],
      decorateA 5 [entry 5 ''x''
        (ArrayExpression (Some (5, 17)) [Identifier (Some (5, 18)) ''observable'',
                                         Identifier (Some (5, 30)) ''foo''])]]"

text \<open>
  \<^verbatim>\<open>class A {}\<close> and \<^verbatim>\<open>decorate(A, { y: observable })\<close> in a file that imports
  \<^verbatim>\<open>decorate\<close> alone.
\<close>

definition unscoped_observable_file :: fileInfo where
  \<open>unscoped_observable_file =
     lfFile [''import { decorate } from "mobx"'', ''class A {}'', ''decorate(A, { y: observable })'']\<close>

definition unscoped_observable_program :: "node list" where
  "unscoped_observable_program =
     [importMobx [''decorate''],
      classA [],
      decorateA 3 [entry 3 ''y'' (Identifier (Some (3, 17)) ''observable'')]]"

text \<open>
  \<^verbatim>\<open>class A { @computed get x() { return 1 } @computed set x(v) {} }\<close>: the getter and the
  setter of a pair both carry the decorator; and what the run returns.
\<close>

definition decorated_setter_file :: fileInfo where
  \<open>decorated_setter_file =
     lfFile [''import { computed } from "mobx"'', ''class A {'',
             ''  @computed get x() { return 1 }'', ''  @computed set x(v) {}'', ''}'']\<close>

definition returnOne :: statement where
  "returnOne = OtherStatement (Some (3, 22)) ''ReturnStatement''
                 [OtherExpression (Some (3, 29)) ''NumericLiteral'' [] []] []"

definition decorated_setter_program :: "node list" where
  "decorated_setter_program =
     [importMobx [''computed''],
      classA [classMethod 3 Get ''x'' [returnOne] [dec 3 (ident 3 ''computed'')],
              (classMethod 4 Set ''x'' [] [dec 4 (ident 4 ''computed'')])\<lparr>params := [''v'']\<rparr>]]"

definition decorated_setter_output :: "node list" where
  "decorated_setter_output =
     [ImportDeclaration (Some (1, 0))
        [ImportSpecifier (Some (1, 9)) ''computed'', ImportSpecifier None ''initializeObservables'']
        ''mobx'',
      classA [classProperty (Identifier (Some (3, 4)) ''x'')
                (Some (CallExpression None (Identifier None ''computed'')
                   [ArrowFunctionExpression None [] [returnOne] False None,
                    ArrowFunctionExpression None [''v''] [] False None])),
              classProperty (Identifier (Some (4, 4)) ''x'')
                (Some (CallExpression None (Identifier None ''computed'')
                   [ArrowFunctionExpression None [''v''] [] False None,
                    ArrowFunctionExpression None [''v''] [] False None])),
              constructorDecl False]]"































section \<open>Predicates of the statements\<close>

text \<open>The indices of the setters of a class body: the only members the class pass removes.\<close>

definition setterIndices :: "member list \<Rightarrow> nat set" where
  "setterIndices ms = {k. k < length ms \<and> mtype (ms ! k) = ClassMethod \<and> kind (ms ! k) = Set}"

text \<open>The second state is the first with diagnostics added to the console, nothing else.\<close>

definition onlyWrote :: "'a env_scheme \<Rightarrow> 'a env_scheme \<Rightarrow> bool" where
  "onlyWrote s s' = (\<exists>ws. s' = s\<lparr>console := console s @ ws\<rparr>)"

text \<open>
  What a step of the class pass may do to the state of the class: the file and the facts of
  the import scan stay, the flags are only ever set, removals are added and are setters,
  diagnostics and statements to insert are added.
\<close>

definition advances :: "member list \<Rightarrow> cstate \<Rightarrow> cstate \<Rightarrow> bool" where
  "advances ms s s' =
     (lines s' = lines s \<and> filePath s' = filePath s \<and>
      decoratorsUsed s' = decoratorsUsed s \<and> usesDecorate s' = usesDecorate s \<and>
      needsInitializeImport s' = needsInitializeImport s \<and>
      (changed s \<longrightarrow> changed s') \<and> (needsConstructor s \<longrightarrow> needsConstructor s') \<and>
      (\<exists>xs. membersToRemove s' = membersToRemove s @ xs \<and> set xs \<subseteq> setterIndices ms) \<and>
      (\<exists>ws. console s' = console s @ ws) \<and>
      (\<exists>ys. insertedAfter s' = ys @ insertedAfter s))"

text \<open>The names that the import declarations of the library bring in, as the import scan reads them.\<close>

definition specifierName :: "specifier \<Rightarrow> string option" where
  "specifierName sp = (case sp of ImportSpecifier _ n \<Rightarrow> Some n | _ \<Rightarrow> None)"

definition mobxNames :: "node \<Rightarrow> string list" where
  "mobxNames n =
     (case n of
        ImportDeclaration _ specifiers src \<Rightarrow>
          if src = ''mobx'' then List.map_filter specifierName specifiers else []
      | _ \<Rightarrow> [])"

definition importedNames :: "node list \<Rightarrow> string list" where
  "importedNames program = concat (map mobxNames program)"

text \<open>The position names a line of the file as \<^verbatim>\<open>split\<close> cuts it: \<^verbatim>\<open>warn\<close> succeeds on it.\<close>

definition inLines :: "string list \<Rightarrow> loc \<Rightarrow> bool" where
  "inLines ls l = (case l of None \<Rightarrow> False | Some (line, col) \<Rightarrow> 1 \<le> line \<and> line \<le> length ls)"


text \<open>The class declarations of the file, each with its handle and its name.\<close>

definition classIds :: "tree \<Rightarrow> (nat \<times> expr option) list" where
  "classIds t =
     List.map_filter (\<lambda>hn. case snd hn of ClassDeclaration c \<Rightarrow> Some (fst hn, cid c) | _ \<Rightarrow> None) t"







text \<open>
  A member that a run leaves alone: it is no property and no method, or it has no
  decorators, or one of the three guards of \<^verbatim>\<open>handleProperty\<close> returns it after a warning.
  \<open>P\<close> is what is asked of the position that the warning reads.
\<close>

definition settled :: "(loc \<Rightarrow> bool) \<Rightarrow> string set \<Rightarrow> member \<Rightarrow> bool" where
  "settled P used m =
     (\<not> isClassMember m \<or>
      (case decorators m of
         [] \<Rightarrow> True
       | Decorator dl d # others \<Rightarrow>
           if others \<noteq> [] then P dl
           else if isIdentifier d \<and> identName d \<notin> used then P dl
           else static m \<and> P (mloc m)))"

definition programSettled :: "(loc \<Rightarrow> bool) \<Rightarrow> string set \<Rightarrow> node list \<Rightarrow> bool" where
  "programSettled P used program =
     list_all (\<lambda>n. case n of
                      ClassDeclaration c \<Rightarrow> list_all (settled P used) (cbody c)
                    | _ \<Rightarrow> True) program"



section \<open>Properties\<close>

subsection \<open>Runs on the example programs\<close>

text \<open>
  C1. The run does not always complete. When a \<^verbatim>\<open>decorate\<close> entry names an existing member
  and its value is an identifier outside the imported decorators, the decorator that the
  first pass built for the member reaches \<^verbatim>\<open>warn\<close> in the second pass, and \<^verbatim>\<open>warn\<close> throws
  on the missing position.
\<close>

theorem tranform_throws_on_synthesized_decorator:
  "tranform synthesized_decorator_file False synthesized_decorator_program = Inl TypeError"
  by code_simp

text \<open>
  C5. A member whose only decorator is a member expression or a call with a base outside
  the imported decorators is not reported, and its decorator list is emptied: the test
  of the scope looks at identifiers only.
\<close>

theorem foreign_decorators_dropped:
  "tranform foreign_decorators_file False foreign_decorators_program =
     Inr \<lparr>returned = Source foreign_decorators_output, tree = foreign_decorators_output,
          diagnostics = []\<rparr>"
  by code_simp

text \<open>
  C6. An \<^verbatim>\<open>action\<close> method of a class without a name is reported and no statement is
  inserted, but the decorator is gone from the member and the file counts as changed.
\<close>

theorem anonymous_action_decorator_dropped:
  "tranform anonymous_action_file False anonymous_action_program =
     Inr \<lparr>returned = Source anonymous_action_output, tree = anonymous_action_output,
          diagnostics = [Diagnostic ''Cannot transform action of anonymous class'' 3 2]\<rparr>"
  by code_simp

text \<open>
  C2. An entry whose value is an array keeps the call in the tree and is reported once,
  in a file whose lines end with a line feed. In the same file with carriage returns for
  line ends the parser counts five lines and \<^verbatim>\<open>split\<close> one, \<^verbatim>\<open>warn\<close> finds no line for the
  position of the array, and the run throws where the entry was to be reported.
\<close>

theorem array_entry_throws_on_cr_line_ends:
  "tranform (lfFile array_entry_lines) False array_entry_program =
     Inr \<lparr>returned = Source array_entry_output, tree = array_entry_output,
          diagnostics = [Diagnostic ''Cannot undecorate composed decorators'' 5 17]\<rparr> \<and>
   tranform (crFile array_entry_lines) False array_entry_program = Inl TypeError"
  by code_simp

text \<open>
  C4. A \<^verbatim>\<open>computed\<close> decorator on a plain field is none of the rows of the table, yet the
  field is rewritten and nothing is reported: the branches for \<^verbatim>\<open>observable\<close> and
  \<^verbatim>\<open>computed\<close> have no test of the member's kind and no default case, as the switch for
  \<^verbatim>\<open>action\<close> has.
\<close>

theorem computed_field_rewritten_silently:
  "tranform computed_field_file False computed_field_program =
     Inr \<lparr>returned = Source computed_field_output, tree = computed_field_output,
          diagnostics = []\<rparr>"
  by code_simp

text \<open>
  C7. An entry \<^verbatim>\<open>y: observable\<close> for a member that the class does not declare gives no
  field when \<^verbatim>\<open>observable\<close> is outside the import scope set: the first pass builds the
  member and removes the call, \<^verbatim>\<open>handleProperty\<close> turns the member down as carrying a
  foreign decorator, and \<^verbatim>\<open>warn\<close> throws on the decorator that the first pass built.
\<close>

theorem unscoped_observable_entry_throws:
  "tranform unscoped_observable_file False unscoped_observable_program = Inl TypeError"
  by code_simp

text \<open>
  C8. When the setter of the pair carries the decorator too, it is rewritten as a field of
  its own, a new node that the filter over \<open>membersToRemove\<close> does not know: the class
  ends with two fields \<^verbatim>\<open>x\<close>.
\<close>

theorem decorated_setter_kept_as_field:
  "tranform decorated_setter_file False decorated_setter_program =
     Inr \<lparr>returned = Source decorated_setter_output, tree = decorated_setter_output,
          diagnostics = []\<rparr>"
  by code_simp

subsection \<open>Errors and warnings\<close>

lemma thenE_Inl [simp]: "thenE (Inl x) f = Inl x"
  by (simp add: thenE_def)

lemma thenE_Inr [simp]: "thenE (Inr v) f = f v"
  by (simp add: thenE_def)

lemma thenE_eq_Inr: "thenE r f = Inr y \<longleftrightarrow> (\<exists>v. r = Inr v \<and> f v = Inr y)"
  by (cases r) simp_all

lemma warn_None [simp]: "warn msg None e = Inl TypeError"
  by (simp add: warn_def)

lemma warn_eq_Inr:
  "warn msg l e = Inr e' \<longleftrightarrow>
     (\<exists>line col. l = Some (line, col) \<and> inLines (lines e) l \<and>
        e' = e\<lparr>console := console e @ [Diagnostic msg line col]\<rparr>)"
  by (cases l) (auto simp: warn_def inLines_def split: if_splits)






subsection \<open>The rewrite of a member\<close>

lemma findSetter_Some:
  "findSetter ms p = Some (k, m) \<Longrightarrow>
     k < length ms \<and> m = ms ! k \<and> mtype m = ClassMethod \<and> kind m = Set \<and>
     isIdentifier (key m) \<and> isIdentifier (key p) \<and> identName (key m) = identName (key p)"
  by (auto simp: findSetter_def find_Some_iff nth_enumerate_eq)

lemma onlyWrote_refl [simp]: "onlyWrote s s"
  unfolding onlyWrote_def by (rule exI [of _ "[]"]) simp

lemma onlyWrote_trans: "onlyWrote s s1 \<Longrightarrow> onlyWrote s1 s2 \<Longrightarrow> onlyWrote s s2"
  unfolding onlyWrote_def by auto

lemma onlyWrote_warn: "warn msg l s = Inr s' \<Longrightarrow> onlyWrote s s'"
  unfolding onlyWrote_def by (auto simp: warn_eq_Inr)

lemma parseProperty_Inr:
  assumes "parseProperty p c s = Inr (info, s1)"
  shows "\<exists>dl d ds. decorators p = Decorator dl d # ds \<and>
           baseDecorator info = (case namesOf d of Some n \<Rightarrow> fst n | None \<Rightarrow> []) \<and>
           subDecorator info = (case namesOf d of Some n \<Rightarrow> snd n | None \<Rightarrow> []) \<and>
           ptype info = (if mtype p = ClassMethod
                         then (if kind p = Get then PGetter else PMethod) else PField) \<and>
           pexpr info = (if mtype p = ClassMethod then OfMethod p else OfValue (val p)) \<and>
           callArg info = (case callArguments d of Some (a # _) \<Rightarrow> Some a | _ \<Rightarrow> None) \<and>
           setterExpr info = findSetter (cbody c) p \<and>
           onlyWrote s s1"
proof -
  from assms obtain dl d ds where ds: "decorators p = Decorator dl d # ds"
    by (cases "decorators p") (auto simp: parseProperty_def split: decorator.splits)
  from assms ds obtain base sub e1 where
    n: "decoratorNames d s = Inr ((base, sub), e1)"
    by (auto simp: parseProperty_def thenE_eq_Inr)
  have e1: "onlyWrote s e1"
    and names: "base = (case namesOf d of Some n \<Rightarrow> fst n | None \<Rightarrow> [])"
               "sub = (case namesOf d of Some n \<Rightarrow> snd n | None \<Rightarrow> [])"
    using n by (auto simp: decoratorNames_def thenE_eq_Inr split: option.splits
                 dest: onlyWrote_warn)
  from assms ds n obtain e2 where
    e2: "(case callArguments d of
            Some args \<Rightarrow> if length args \<noteq> 1
                          then warn ''Expected exactly one argument'' (loc_of d) e1 else Inr e1
          | None \<Rightarrow> Inr e1) = Inr e2"
    and info: "info = \<lparr>isCallExpression = (callArguments d \<noteq> None),
                 baseDecorator = base, subDecorator = sub,
                 ptype = (if mtype p = ClassMethod
                          then (if kind p = Get then PGetter else PMethod) else PField),
                 pexpr = (if mtype p = ClassMethod then OfMethod p else OfValue (val p)),
                 callArg = (case callArguments d of Some (a # _) \<Rightarrow> Some a | _ \<Rightarrow> None),
                 setterExpr = findSetter (cbody c) p\<rparr>"
    and s1: "s1 = e2"
    by (auto simp: parseProperty_def thenE_eq_Inr)
  have "onlyWrote e1 e2"
    using e2 by (auto split: option.splits if_splits dest: onlyWrote_warn)
  with e1 have "onlyWrote s e2"
    by (rule onlyWrote_trans)
  then show ?thesis
    using ds info names s1 by simp
qed

lemma advances_refl [simp]: "advances ms s s"
  by (simp add: advances_def)

lemma advances_trans: "advances ms s s1 \<Longrightarrow> advances ms s1 s2 \<Longrightarrow> advances ms s s2"
  unfolding advances_def by (elim conjE exE) simp

lemma advances_onlyWrote: "onlyWrote s s' \<Longrightarrow> advances ms s s'"
  by (auto simp: onlyWrote_def advances_def)

lemma advances_changed [simp]: "advances ms s (s\<lparr>changed := True\<rparr>)"
  by (simp add: advances_def)

lemma advances_needsConstructor [simp]: "advances ms s (s\<lparr>needsConstructor := True\<rparr>)"
  by (simp add: advances_def)

lemma generateAction_advances:
  "generateActionInitializationOnPrototype c p info s = Inr s' \<Longrightarrow> advances ms s s'"
  by (auto simp: generateActionInitializationOnPrototype_def advances_def warn_eq_Inr
           split: option.splits holder.splits)

lemma handleAction_advances:
  "handleAction i p info c s = Inr ((orig, m), s') \<Longrightarrow>
     advances ms s s' \<and> (orig = Some i \<or> orig = None)"
  by (auto simp: handleAction_def keep_def Let_def thenE_eq_Inr
           split: if_splits dest: generateAction_advances onlyWrote_warn advances_onlyWrote)

lemma handleProperty_advances:
  assumes "handleProperty i p c s = Inr ((orig, m), s')"
  shows "advances (cbody c) s s' \<and> (orig = Some i \<or> orig = None)"
proof (cases "decorators p")
  case Nil
  with assms show ?thesis by (simp add: handleProperty_def keep_def)
next
  case (Cons dd others)
  obtain dl d where dd: "dd = Decorator dl d" by (cases dd)
  consider (guard) "others \<noteq> [] \<or> (isIdentifier d \<and> identName d \<notin> decoratorsUsed s) \<or> static p"
    | (go) "others = []" "\<not> (isIdentifier d \<and> identName d \<notin> decoratorsUsed s)" "\<not> static p"
    by blast
  then show ?thesis
  proof cases
    case guard
    with assms Cons dd show ?thesis
      by (auto simp: handleProperty_def keep_def thenE_eq_Inr split: if_splits
               dest: onlyWrote_warn advances_onlyWrote)
  next
    case go
    with assms Cons dd obtain info s1 where
      pp: "parseProperty p c s = Inr (info, s1)"
      by (auto simp: handleProperty_def thenE_eq_Inr)
    from parseProperty_Inr [OF pp] have w: "advances (cbody c) s s1"
      and st: "setterExpr info = findSetter (cbody c) p"
      by (auto dest: advances_onlyWrote)
    have rm: "k \<in> setterIndices (cbody c)" if "setterExpr info = Some (k, x)" for k x
      using that st findSetter_Some [of "cbody c" p k x] by (auto simp: setterIndices_def)
    have "advances (cbody c) s1 s' \<and> (orig = Some i \<or> orig = None)"
      using assms Cons dd go pp rm
      by (auto simp: handleProperty_def keep_def Let_def advances_def
               split: if_splits option.splits
               dest!: handleAction_advances [where ms = "cbody c"])
    with w show ?thesis by (auto intro: advances_trans)
  qed
qed

lemma handleMember_advances:
  "handleMember i p c s = Inr ((orig, m), s') \<Longrightarrow>
     advances (cbody c) s s' \<and> (orig = Some i \<or> orig = None)"
  by (auto simp: handleMember_def keep_def split: if_splits dest: handleProperty_advances)

lemma mapMembers_Cons:
  "mapMembers i (p # ps) c s = Inr (rs, s') \<longleftrightarrow>
     (\<exists>r s1 rs1. handleMember i p c s = Inr (r, s1) \<and>
                 mapMembers (Suc i) ps c s1 = Inr (rs1, s') \<and> rs = r # rs1)"
  by (auto simp: thenE_eq_Inr)

lemma mapMembers_nth:
  assumes "mapMembers i ms c s = Inr (rs, s')"
  shows "length rs = length ms \<and> advances (cbody c) s s' \<and>
         (\<forall>j<length ms. \<exists>sj sj'. advances (cbody c) s sj \<and> advances (cbody c) sj' s' \<and>
                           handleMember (i + j) (ms ! j) c sj = Inr (rs ! j, sj'))"
  using assms
proof (induction ms arbitrary: i s rs)
  case Nil
  then show ?case by simp
next
  case (Cons p ps)
  from Cons.prems [unfolded mapMembers_Cons] obtain r s1 rs1 where
    h: "handleMember i p c s = Inr (r, s1)"
    and m: "mapMembers (Suc i) ps c s1 = Inr (rs1, s')"
    and rs: "rs = r # rs1"
    by blast
  have a1: "advances (cbody c) s s1"
    using h handleMember_advances [of i p c s "fst r" "snd r" s1] by simp
  note ih = Cons.IH [OF m]
  have a2: "advances (cbody c) s1 s'" using ih by simp
  have "\<exists>sj sj'. advances (cbody c) s sj \<and> advances (cbody c) sj' s' \<and>
                  handleMember (i + j) ((p # ps) ! j) c sj = Inr (rs ! j, sj')"
    if j: "j < length (p # ps)" for j
  proof (cases j)
    case 0
    have "advances (cbody c) s s \<and> advances (cbody c) s1 s' \<and>
          handleMember (i + j) ((p # ps) ! j) c s = Inr (rs ! j, s1)"
      using 0 h a2 rs by simp
    then show ?thesis by blast
  next
    case (Suc j')
    then have "j' < length ps" using j by simp
    with ih obtain sj sj' where "advances (cbody c) s1 sj" "advances (cbody c) sj' s'"
      "handleMember (Suc i + j') (ps ! j') c sj = Inr (rs1 ! j', sj')" by blast
    then have "advances (cbody c) s sj \<and> advances (cbody c) sj' s' \<and>
          handleMember (i + j) ((p # ps) ! j) c sj = Inr (rs ! j, sj')"
      using Suc rs a1 by (auto intro: advances_trans)
    then show ?thesis by blast
  qed
  then show ?case
    using ih rs a1 a2 by (auto intro: advances_trans)
qed

lemma mapMembers_origin:
  assumes "mapMembers i ms c s = Inr (rs, s')" and "j < length ms"
  shows "fst (rs ! j) = Some (i + j) \<or> fst (rs ! j) = None"
proof -
  from mapMembers_nth [OF assms(1)] assms(2) obtain sj sj' where
    "handleMember (i + j) (ms ! j) c sj = Inr (rs ! j, sj')" by blast
  then show ?thesis
    using handleMember_advances [of "i + j" "ms ! j" c sj "fst (rs ! j)" "snd (rs ! j)" sj'] by simp
qed

lemma handleMember_undecorated:
  "decorators p = [] \<Longrightarrow> handleMember i p c s = Inr ((Some i, p), s)"
  by (simp add: handleMember_def handleProperty_def keep_def)

lemma mapMembers_undecorated:
  assumes "mapMembers i ms c s = Inr (rs, s')" and "j < length ms" and "decorators (ms ! j) = []"
  shows "rs ! j = (Some (i + j), ms ! j)"
proof -
  from mapMembers_nth [OF assms(1)] assms(2) obtain sj sj' where
    "handleMember (i + j) (ms ! j) c sj = Inr (rs ! j, sj')" by blast
  then show ?thesis using handleMember_undecorated [OF assms(3)] by simp
qed

lemma filter_update_outside:
  "k < length xs \<Longrightarrow> \<not> P (xs ! k) \<Longrightarrow> \<not> P y \<Longrightarrow> filter P (xs[k := y]) = filter P xs"
  by (simp add: upd_conv_take_nth_drop) (metis (no_types) filter.simps(2) filter_append id_take_nth_drop)

lemma filter_splice0: "\<not> P x \<Longrightarrow> filter P (splice0 k x xs) = filter P xs"
  by (simp add: splice0_def) (metis append_take_drop_id filter_append)

lemma createConstructor_Inr:
  assumes "createConstructor c e = Inr (c', e')"
  shows "cparent c' = cparent c" and "cid c' = cid c" and "onlyWrote e e'"
proof -
  show "cparent c' = cparent c"
    using assms
    by (auto simp: createConstructor_def Let_def thenE_eq_Inr split: option.splits if_splits)
  show "cid c' = cid c"
    using assms
    by (auto simp: createConstructor_def Let_def thenE_eq_Inr split: option.splits if_splits)
  show "onlyWrote e e'"
    using assms
    by (auto simp: createConstructor_def Let_def thenE_eq_Inr split: option.splits if_splits
             dest: onlyWrote_warn)
qed

subsection \<open>The passes over the imports and the classes\<close>

lemma scanSpecifiers_env:
  "scanSpecifiers sps idx (e, di) = (e', di') \<Longrightarrow>
     e' = e\<lparr>decoratorsUsed := decoratorsUsed e \<union>
                 (set (List.map_filter specifierName sps) \<inter> set validDecorators),
            usesDecorate := (usesDecorate e \<or> ''decorate'' \<in> set (List.map_filter specifierName sps))\<rparr>"
proof (induction sps arbitrary: idx e di)
  case Nil
  then show ?case by simp
next
  case (Cons sp sps)
  show ?case
  proof (cases sp)
    case (ImportSpecifier l n)
    show ?thesis
    proof (cases "n = ''decorate''")
      case True
      with Cons.prems ImportSpecifier
      have "scanSpecifiers sps (Suc idx) (e\<lparr>usesDecorate := True\<rparr>, Some idx) = (e', di')"
        by (simp add: validDecorators_def)
      from Cons.IH [OF this] True ImportSpecifier show ?thesis
        by (simp add: specifierName_def validDecorators_def)
    next
      case False
      let ?e1 = "if n \<in> set validDecorators
                 then e\<lparr>decoratorsUsed := insert n (decoratorsUsed e)\<rparr> else e"
      from Cons.prems ImportSpecifier False
      have "scanSpecifiers sps (Suc idx) (?e1, di) = (e', di')"
        by (simp add: Let_def)
      from Cons.IH [OF this] False ImportSpecifier show ?thesis
        by (auto simp: specifierName_def intro!: env.equality)
    qed
  next
    case (ImportDefaultSpecifier l n)
    with Cons show ?thesis by (simp add: specifierName_def)
  next
    case (ImportNamespaceSpecifier l n)
    with Cons show ?thesis by (simp add: specifierName_def)
  qed
qed


lemma scanImport_env:
  "scanImport n e = (n', e') \<Longrightarrow>
     e' = e\<lparr>decoratorsUsed := decoratorsUsed e \<union> (set (mobxNames n) \<inter> set validDecorators),
            usesDecorate := (usesDecorate e \<or> ''decorate'' \<in> set (mobxNames n))\<rparr>"
  by (cases n)
     (auto simp: scanImport_def mobxNames_def
           split: if_splits prod.splits option.splits dest!: scanSpecifiers_env)


lemma scanImports_env:
  "scanImports p e = (p', e') \<Longrightarrow>
     e' = e\<lparr>decoratorsUsed := decoratorsUsed e \<union> (set (importedNames p) \<inter> set validDecorators),
            usesDecorate := (usesDecorate e \<or> ''decorate'' \<in> set (importedNames p))\<rparr>"
proof (induction p arbitrary: e p' e')
  case Nil
  then show ?case by (simp add: importedNames_def)
next
  case (Cons n ns)
  obtain n1 e1 where n1: "scanImport n e = (n1, e1)" by fastforce
  obtain ns1 e2 where ns1: "scanImports ns e1 = (ns1, e2)" by fastforce
  from Cons.prems n1 ns1 have e': "e' = e2" by simp
  from scanImport_env [OF n1] Cons.IH [OF ns1] e' show ?case
    by (auto simp: importedNames_def intro!: env.equality)
qed


lemma rewriteClass_frame:
  assumes "rewriteClass c e = Inr ((c', after), e')"
  shows "decoratorsUsed e' = decoratorsUsed e \<and> usesDecorate e' = usesDecorate e \<and>
         (changed e \<longrightarrow> changed e')"
proof -
  from assms obtain rs s where run: "mapMembers 0 (cbody c) c (startClass e) = Inr (rs, s)"
    by (auto simp: rewriteClass_def thenE_eq_Inr)
  from mapMembers_nth [OF run] have adv: "advances (cbody c) (startClass e) s" by simp
  then have s: "decoratorsUsed s = decoratorsUsed e" "usesDecorate s = usesDecorate e"
    "changed e \<longrightarrow> changed s"
    by (auto simp: advances_def startClass_def)
  show ?thesis
  proof (cases "needsConstructor s")
    case False
    with assms run have "e' = envOfClass s"
      by (simp add: rewriteClass_def Let_def)
    with s show ?thesis
      by (simp add: envOfClass_def)
  next
    case True
    with assms run have "\<exists>c2 e1.
        createConstructor (c\<lparr>cbody := removeMembers (membersToRemove s) rs\<rparr>) (envOfClass s)
          = Inr (c2, e1) \<and> e' = e1\<lparr>needsInitializeImport := True\<rparr>"
      by (simp add: rewriteClass_def Let_def thenE_eq_Inr) blast
    then obtain c2 e1 where
      cc: "createConstructor (c\<lparr>cbody := removeMembers (membersToRemove s) rs\<rparr>) (envOfClass s)
             = Inr (c2, e1)"
      and e': "e' = e1\<lparr>needsInitializeImport := True\<rparr>"
      by blast
    from createConstructor_Inr(3) [OF cc] obtain ws where
      "e1 = (envOfClass s)\<lparr>console := console (envOfClass s) @ ws\<rparr>"
      by (auto simp: onlyWrote_def)
    with s e' show ?thesis
      by (simp add: envOfClass_def)
  qed
qed

lemma rewriteClasses_frame:
  "rewriteClasses p e = Inr (p', e') \<Longrightarrow>
     decoratorsUsed e' = decoratorsUsed e \<and> usesDecorate e' = usesDecorate e \<and>
     (changed e \<longrightarrow> changed e')"
proof (induction p arbitrary: e p' e')
  case Nil
  then show ?case by simp
next
  case (Cons n ns)
  show ?case
  proof (cases n)
    case (ClassDeclaration c)
    with Cons.prems obtain c1 after e1 ns1 where
      c1: "rewriteClass c e = Inr ((c1, after), e1)"
      and ns1: "rewriteClasses ns e1 = Inr (ns1, e')"
      by (auto simp: thenE_eq_Inr)
    from rewriteClass_frame [OF c1] Cons.IH [OF ns1] show ?thesis by simp
  next
    case (ImportDeclaration l sps src)
    with Cons.prems obtain ns1 where "rewriteClasses ns e = Inr (ns1, e')"
      by (auto simp: thenE_eq_Inr)
    from Cons.IH [OF this] show ?thesis .
  next
    case (Statement st)
    with Cons.prems obtain ns1 where "rewriteClasses ns e = Inr (ns1, e')"
      by (auto simp: thenE_eq_Inr)
    from Cons.IH [OF this] show ?thesis .
  qed
qed

lemma addInitializeImport_frame:
  "addInitializeImport p e = (p', e') \<Longrightarrow>
     decoratorsUsed e' = decoratorsUsed e \<and> usesDecorate e' = usesDecorate e \<and>
     changed e' = changed e"
  by (auto simp: addInitializeImport_def split: option.splits)

lemma tranform_Inr:
  assumes "tranform info ignoreImports program = Inr r"
  obtains p1 e1 p2 e2 p3 e3 p4 e4 where
    "scanImports program (initialEnv info ignoreImports) = (p1, e1)"
    "(if usesDecorate e1 then rewriteDecorateCalls p1 e1 else Inr (p1, e1)) = Inr (p2, e2)"
    "rewriteClasses p2 e2 = Inr (p3, e3)"
    "(if needsInitializeImport e3 then addInitializeImport p3 e3 else (p3, e3)) = (p4, e4)"
    "r = \<lparr>returned = (if decoratorsUsed e4 = {} \<and> \<not> usesDecorate e4 then Unchanged
                        else if changed e4 then Source p4 else Unchanged),
           tree = p4, diagnostics = console e4\<rparr>"
proof -
  obtain p1 e1 where scan: "scanImports program (initialEnv info ignoreImports) = (p1, e1)"
    by fastforce
  let ?d = "if usesDecorate e1 then rewriteDecorateCalls p1 e1 else Inr (p1, e1)"
  from assms scan obtain p2 e2 where d: "?d = Inr (p2, e2)"
    by (cases ?d) (auto simp: tranform_def)
  from assms scan d obtain p3 e3 where c: "rewriteClasses p2 e2 = Inr (p3, e3)"
    by (cases "rewriteClasses p2 e2") (auto simp: tranform_def)
  obtain p4 e4 where
    i: "(if needsInitializeImport e3 then addInitializeImport p3 e3 else (p3, e3)) = (p4, e4)"
    by fastforce
  from assms have "r = \<lparr>returned = (if decoratorsUsed e4 = {} \<and> \<not> usesDecorate e4 then Unchanged
                        else if changed e4 then Source p4 else Unchanged),
           tree = p4, diagnostics = console e4\<rparr>"
    unfolding tranform_def scan prod.case d thenE_Inr c i by simp
  with scan d c i show ?thesis by (rule that)
qed



text \<open>
  C3, as stated: a file without any import from the library is returned unchanged at
  once, with no diagnostics. It does not hold: the classes are visited before the imports
  are looked at again, and a member with two decorators is reported; where the lines of
  the file end in carriage returns, that report throws and nothing is returned; and a
  member whose decorator is a member expression loses it in the tree, which is then
  dropped.
\<close>

theorem no_import_diagnostic_counterexample:
  "tranform two_decorators_file False two_decorators_program =
     Inr \<lparr>returned = Unchanged, tree = two_decorators_program,
          diagnostics = [Diagnostic ''Found multiple decorators, skipping..'' 3 2]\<rparr> \<and>
   tranform (crFile two_decorators_lines) False two_decorators_program = Inl TypeError \<and>
   tranform unimported_member_file False unimported_member_program =
     Inr \<lparr>returned = Unchanged, tree = unimported_member_tree, diagnostics = []\<rparr> \<and>
   unimported_member_tree \<noteq> unimported_member_program"
  by code_simp

text \<open>
  C3, amended. When the file imports none of \<^verbatim>\<open>action\<close>, \<^verbatim>\<open>observable\<close>, \<^verbatim>\<open>computed\<close> and
  \<^verbatim>\<open>decorate\<close> from the library and \<open>ignoreImports\<close> is not set, a run that completes
  returns the unchanged sentinel, whatever the file holds. (The classes are visited all
  the same, before the imports are looked at again: the run may have written
  diagnostics, and it may have thrown, as in C1.)
\<close>

theorem no_import_returns_unchanged:
  assumes imps: "set (importedNames program) \<inter> insert ''decorate'' (set validDecorators) = {}"
    and run: "tranform info False program = Inr r"
  shows "returned r = Unchanged"
proof -
  from tranform_Inr [OF run] obtain p1 e1 p2 e2 p3 e3 p4 e4 where
    scan: "scanImports program (initialEnv info False) = (p1, e1)"
    and dec: "(if usesDecorate e1 then rewriteDecorateCalls p1 e1 else Inr (p1, e1)) = Inr (p2, e2)"
    and rc: "rewriteClasses p2 e2 = Inr (p3, e3)"
    and imp: "(if needsInitializeImport e3 then addInitializeImport p3 e3 else (p3, e3)) = (p4, e4)"
    and r: "r = \<lparr>returned = (if decoratorsUsed e4 = {} \<and> \<not> usesDecorate e4 then Unchanged
                        else if changed e4 then Source p4 else Unchanged),
           tree = p4, diagnostics = console e4\<rparr>"
    by blast
  from scanImports_env [OF scan] imps have e1: "decoratorsUsed e1 = {}" "\<not> usesDecorate e1"
    by (auto simp: initialEnv_def)
  with dec have e2: "decoratorsUsed e2 = {}" "\<not> usesDecorate e2" by auto
  from rewriteClasses_frame [OF rc] e2 have e3: "decoratorsUsed e3 = {}" "\<not> usesDecorate e3"
    by simp_all
  from imp have e4: "decoratorsUsed e4 = {}" "\<not> usesDecorate e4"
    using e3 addInitializeImport_frame [of p3 e3 p4 e4] by (auto split: if_splits)
  then show ?thesis by (simp add: r)
qed

theorem no_import_witness:
  "\<exists>r. tranform two_decorators_file False two_decorators_program = Inr r \<and>
       returned r = Unchanged"
proof -
  have imps: "set (importedNames two_decorators_program) \<inter>
                   insert ''decorate'' (set validDecorators) = {}"
    by (simp add: two_decorators_program_def importedNames_def mobxNames_def classA_def)
  have run: "tranform two_decorators_file False two_decorators_program =
     Inr \<lparr>returned = Unchanged, tree = two_decorators_program,
          diagnostics = [Diagnostic ''Found multiple decorators, skipping..'' 3 2]\<rparr>"
    by code_simp
  show ?thesis
    using no_import_returns_unchanged [OF imps run] run by simp
qed

subsection \<open>The decorate pass, call by call\<close>









lemma bestDeclaration_None [simp]: "bestDeclaration owner [] = None"
  by (simp add: bestDeclaration_def)





lemma classIds_setClassBody [simp]: "classIds (setClassBody hc ms t) = classIds t"
  by (induction t) (auto simp: classIds_def setClassBody_def split: node.splits if_splits)

lemma classIds_prune [simp]: "classIds (prune h l t) = classIds t"
proof (induction t)
  case Nil
  then show ?case by (simp add: prune_def classIds_def List.map_filter_simps)
next
  case (Cons hn t)
  obtain h' n where hn: "hn = (h', n)" by (cases hn)
  from Cons hn show ?case
    by (cases n)
       (auto simp: classIds_def prune_def List.map_filter_simps split: option.splits)
qed

















lemma envOfClass_startClass [simp]: "envOfClass (startClass e) = e"
  by (simp add: envOfClass_def startClass_def)










subsection \<open>A call that passes the checks\<close>





subsection \<open>Members that a run leaves alone\<close>
















lemma importedNames_Cons: "importedNames (n # ns) = mobxNames n @ importedNames ns"
  by (simp add: importedNames_def)



lemma programSettled_append:
  "programSettled P used (xs @ ys) \<longleftrightarrow> programSettled P used xs \<and> programSettled P used ys"
  by (simp add: programSettled_def)








subsection \<open>The names imported after each pass\<close>

lemma names_setClassBody [simp]:
  "importedNames (map snd (setClassBody hc ms t)) = importedNames (map snd t)"
proof (induction t)
  case Nil
  then show ?case by (simp add: setClassBody_def)
next
  case (Cons hn t)
  obtain h' n where hn: "hn = (h', n)" by (cases hn)
  from Cons have "importedNames (map snd (setClassBody hc ms t)) = importedNames (map snd t)" .
  with hn show ?case
    by (cases n) (auto simp: setClassBody_def importedNames_Cons mobxNames_def)
qed

lemma names_prune [simp]: "importedNames (map snd (prune h l t)) = importedNames (map snd t)"
proof (induction t)
  case Nil
  then show ?case by (simp add: prune_def List.map_filter_simps)
next
  case (Cons hn t)
  obtain h' n where hn: "hn = (h', n)" by (cases hn)
  from Cons have ih: "importedNames (map snd (prune h l t)) = importedNames (map snd t)" .
  have step: "prune h l (hn # t) =
          (case (if h' = h
                 then (case n of
                         Statement ow st \<Rightarrow> map_option (\<lambda>st'. (h', Statement ow st')) (pruneS l st)
                       | _ \<Rightarrow> Some (h', n))
                 else Some (h', n)) of
             None \<Rightarrow> prune h l t | Some x \<Rightarrow> x # prune h l t)"
    unfolding hn prune_def by (simp add: List.map_filter_simps)
  show ?case
    unfolding step using ih hn
    by (cases n) (auto simp: importedNames_Cons mobxNames_def split: option.splits)
qed













subsection \<open>A second run\<close>




end
